theory Spec2Isabelle
  imports Main "HOL-Library.Word"
begin

section \<open>Startup configuration of the inventory web service\<close>

text \<open>
  The repository fragment is \<^verbatim>\<open>app/config.py\<close> (the module that calls
  \<^verbatim>\<open>load_dotenv()\<close> and then creates the class \<^verbatim>\<open>Config\<close>),
  \<^verbatim>\<open>app/__init__.py\<close> (\<^verbatim>\<open>create_app\<close>) and
  \<^verbatim>\<open>app/extensions.py\<close>. Everything the modules read from their surroundings is
  a field of the process state: the environment, the \<^verbatim>\<open>.env\<close> file, the bytes the
  operating system's random source hands out, the log, and the module cache.
\<close>

subsection \<open>The configuration class\<close>

text \<open>
  A value of \<^verbatim>\<open>TALISMAN_CSP\<close> is a plain string (\<^verbatim>\<open>'default-src'\<close>) or a list
  of strings (the two other directives).
\<close>

datatype csp_value = Source string | Sources "string list"

record Config =
  SECRET_KEY :: string
  SQLALCHEMY_DATABASE_URI :: string
  SQLALCHEMY_TRACK_MODIFICATIONS :: bool
  WTF_CSRF_ENABLED :: bool
  TALISMAN_ENABLED :: bool
  TALISMAN_CSP :: "(string \<times> csp_value) list"
  SESSION_COOKIE_HTTPONLY :: bool
  SESSION_COOKIE_SAMESITE :: string
  FERNET_KEY :: string
  RATE_LIMIT_STORAGE_URL :: string

subsection \<open>The process\<close>

type_synonym byte = "8 word"

record process =
  environ :: "string \<rightharpoonup> string"
  dotenv :: "string \<rightharpoonup> string option"
  entropy :: "nat \<Rightarrow> byte"
  drawn :: nat
  logged :: "string list"
  loaded :: "Config option"

text \<open>
  \<^item> \<open>environ\<close> is \<^verbatim>\<open>os.environ\<close>;
  \<^item> \<open>dotenv\<close> is the \<^verbatim>\<open>.env\<close> file that \<^verbatim>\<open>load_dotenv()\<close> finds, as the
    dictionary python-dotenv parses it to (a key bound to \<open>None\<close> is a line with a name and no
    value; the empty map is a missing file);
  \<^item> \<open>entropy\<close> is the sequence of bytes the operating system's random source produces for
    this process, and \<open>drawn\<close> counts how many of them the process has consumed;
  \<^item> \<open>logged\<close> is what the process has written to its log or its standard streams;
  \<^item> \<open>loaded\<close> is the entry of \<^verbatim>\<open>sys.modules\<close> for \<^verbatim>\<open>app.config\<close>: the class the
    module created, once it has run.
\<close>

subsection \<open>Library calls of \<^verbatim>\<open>app/config.py\<close>\<close>

text \<open>
  \<^verbatim>\<open>load_dotenv()\<close> with its default arguments (\<^verbatim>\<open>override=False\<close>): every key of the
  file that is not in \<^verbatim>\<open>os.environ\<close> and has a value is stored there; a key that is
  already set keeps its value.
\<close>

definition load_dotenv :: "process \<Rightarrow> process" where
  "load_dotenv p =
     p\<lparr>environ := (\<lambda>k. case environ p k of
                         Some v \<Rightarrow> Some v
                       | None \<Rightarrow> (case dotenv p k of Some (Some v) \<Rightarrow> Some v | _ \<Rightarrow> None))\<rparr>"

text \<open>\<^verbatim>\<open>os.getenv(key, default)\<close>: the value as it is stored, the default for a missing key.\<close>

definition os_getenv :: "process \<Rightarrow> string \<Rightarrow> string \<Rightarrow> string" where
  "os_getenv p key dflt = (case environ p key of Some v \<Rightarrow> v | None \<Rightarrow> dflt)"

text \<open>\<^verbatim>\<open>os.urandom(n)\<close>: the next \<open>n\<close> bytes of the random source.\<close>

definition os_urandom :: "nat \<Rightarrow> process \<Rightarrow> byte list \<times> process" where
  "os_urandom n p = (map (entropy p) [drawn p ..< drawn p + n], p\<lparr>drawn := drawn p + n\<rparr>)"

text \<open>\<^verbatim>\<open>bytes.hex()\<close>: two lower-case hexadecimal digits for each byte.\<close>

definition hexdigits :: string where
  "hexdigits = ''0123456789abcdef''"

definition bytes_hex :: "byte list \<Rightarrow> string" where
  "bytes_hex bs = concat (map (\<lambda>b. [hexdigits ! (unat b div 16), hexdigits ! (unat b mod 16)]) bs)"

text \<open>
  Modelled from the spec: \<^verbatim>\<open>Fernet.generate_key()\<close> belongs to the cryptography package
  and is not part of the sources. The specification describes the key as "32 random bytes,
  URL-safe base64"; the model is \<^verbatim>\<open>base64.urlsafe_b64encode(os.urandom(32))\<close>, with the
  encoding of RFC 4648, section 5: three bytes become four characters of the alphabet
  \<^verbatim>\<open>A-Z a-z 0-9 - _\<close>, and a last group of one or two bytes is padded with \<^verbatim>\<open>=\<close>.
\<close>

definition b64_alphabet :: string where
  "b64_alphabet = ''ABCDEFGHIJKLMNOPQRSTUVWXYZabcdefghijklmnopqrstuvwxyz0123456789-_''"

definition b64_char :: "nat \<Rightarrow> char" where
  "b64_char n = b64_alphabet ! n"

fun urlsafe_b64encode :: "byte list \<Rightarrow> string" where
  "urlsafe_b64encode [] = []"
| "urlsafe_b64encode [a] =
     [b64_char (unat a div 4), b64_char (unat a mod 4 * 16), CHR ''='', CHR ''='']"
| "urlsafe_b64encode [a, b] =
     [b64_char (unat a div 4), b64_char (unat a mod 4 * 16 + unat b div 16),
      b64_char (unat b mod 16 * 4), CHR ''='']"
| "urlsafe_b64encode (a # b # c # bs) =
     [b64_char (unat a div 4), b64_char (unat a mod 4 * 16 + unat b div 16),
      b64_char (unat b mod 16 * 4 + unat c div 64), b64_char (unat c mod 64)]
     @ urlsafe_b64encode bs"

definition Fernet_generate_key :: "process \<Rightarrow> string \<times> process" where
  "Fernet_generate_key p = (let (raw, p') = os_urandom 32 p in (urlsafe_b64encode raw, p'))"

text \<open>
  Modelled from the spec: what "decodes to" means for a URL-safe base64 string. The inverse
  of the encoding above, on the same alphabet: \<open>None\<close> for a string whose length is not a
  multiple of four or that holds a character outside the alphabet (where
  \<^verbatim>\<open>base64.urlsafe_b64decode\<close> raises or skips).
\<close>

fun index_of :: "'a \<Rightarrow> 'a list \<Rightarrow> nat option" where
  "index_of x [] = None"
| "index_of x (y # ys) = (if x = y then Some 0 else map_option Suc (index_of x ys))"

definition b64_index :: "char \<Rightarrow> nat option" where
  "b64_index c = index_of c b64_alphabet"

fun urlsafe_b64decode :: "string \<Rightarrow> byte list option" where
  "urlsafe_b64decode [] = Some []"
| "urlsafe_b64decode (c0 # c1 # c2 # c3 # cs) =
     (if cs = [] \<and> c2 = CHR ''='' \<and> c3 = CHR ''='' then
        (case (b64_index c0, b64_index c1) of
           (Some i0, Some i1) \<Rightarrow> Some [of_nat (i0 * 4 + i1 div 16)]
         | _ \<Rightarrow> None)
      else if cs = [] \<and> c3 = CHR ''='' then
        (case (b64_index c0, b64_index c1, b64_index c2) of
           (Some i0, Some i1, Some i2) \<Rightarrow>
             Some [of_nat (i0 * 4 + i1 div 16), of_nat (i1 mod 16 * 16 + i2 div 4)]
         | _ \<Rightarrow> None)
      else
        (case (b64_index c0, b64_index c1, b64_index c2, b64_index c3) of
           (Some i0, Some i1, Some i2, Some i3) \<Rightarrow>
             map_option
               (\<lambda>bs. of_nat (i0 * 4 + i1 div 16) # of_nat (i1 mod 16 * 16 + i2 div 4)
                     # of_nat (i2 mod 4 * 64 + i3) # bs)
               (urlsafe_b64decode cs)
         | _ \<Rightarrow> None))"
| "urlsafe_b64decode _ = None"

subsection \<open>\<^verbatim>\<open>app/config.py\<close>\<close>

text \<open>The source's \<^verbatim>\<open>'\'self\''\<close>: the word self between two apostrophes.\<close>

definition self_source :: string where
  "self_source = CHR 0x27 # ''self'' @ [CHR 0x27]"

text \<open>
  The class body, line by line. Python evaluates the arguments of \<^verbatim>\<open>os.getenv\<close> before
  the call, so the 24 random bytes of \<^verbatim>\<open>SECRET_KEY\<close> and the 32 of
  \<^verbatim>\<open>FERNET_KEY\<close> are drawn whether or not the variables are set.
\<close>

definition Config_class :: "process \<Rightarrow> Config \<times> process" where
  "Config_class p0 =
     (let (raw, p1) = os_urandom 24 p0;
          secret_key = os_getenv p1 ''SECRET_KEY'' (bytes_hex raw);
          database_uri = os_getenv p1 ''DATABASE_URL'' ''sqlite:///inventory.db'';
          (key, p2) = Fernet_generate_key p1;
          fernet_key = os_getenv p2 ''FERNET_KEY'' key;
          storage_url = os_getenv p2 ''REDIS_URL'' ''redis://redis:6379/0''
      in (\<lparr>SECRET_KEY = secret_key,
           SQLALCHEMY_DATABASE_URI = database_uri,
           SQLALCHEMY_TRACK_MODIFICATIONS = False,
           WTF_CSRF_ENABLED = True,
           TALISMAN_ENABLED = True,
           TALISMAN_CSP =
             [(''default-src'', Source self_source),
              (''style-src'', Sources [self_source, ''https://cdn.jsdelivr.net'']),
              (''script-src'', Sources [self_source, ''https://cdn.jsdelivr.net''])],
           SESSION_COOKIE_HTTPONLY = True,
           SESSION_COOKIE_SAMESITE = ''Lax'',
           FERNET_KEY = fernet_key,
           RATE_LIMIT_STORAGE_URL = storage_url\<rparr>, p2))"

text \<open>The module: \<^verbatim>\<open>load_dotenv()\<close>, then the class statement.\<close>

definition config_module :: "process \<Rightarrow> Config \<times> process" where
  "config_module p = Config_class (load_dotenv p)"

text \<open>
  \<^verbatim>\<open>from .config import Config\<close>: the module runs at its first import and is stored in
  \<^verbatim>\<open>sys.modules\<close>; a later import returns the stored class and runs nothing.
\<close>

definition import_config :: "process \<Rightarrow> Config \<times> process" where
  "import_config p =
     (case loaded p of
        Some c \<Rightarrow> (c, p)
      | None \<Rightarrow> (let (c, p') = config_module p in (c, p'\<lparr>loaded := Some c\<rparr>)))"

text \<open>
  The specification calls the execution of this module \<^verbatim>\<open>loadConfig()\<close> and names two
  error kinds for it. The source defines no exception and no statement of the module raises
  one, so the outcome is a configuration for every process.
\<close>

datatype error = ConfigurationError | CryptoProvisioningError


text \<open>Successive imports of the module in one process, and the class each of them sees.\<close>

fun import_times :: "nat \<Rightarrow> process \<Rightarrow> Config list \<times> process" where
  "import_times 0 p = ([], p)"
| "import_times (Suc n) p =
     (let (c, p1) = import_config p;
          (cs, p2) = import_times n p1
      in (c # cs, p2))"

subsection \<open>\<^verbatim>\<open>app/__init__.py\<close>\<close>

text \<open>
  The application object, as far as \<^verbatim>\<open>create_app\<close> touches it: the configuration copied
  by \<^verbatim>\<open>from_object\<close> (\<open>None\<close> before the call), the extensions in the order of their
  \<^verbatim>\<open>init_app\<close> calls, the blueprints with their URL prefixes in the order of registration,
  and whether \<^verbatim>\<open>db.create_all()\<close> has run. The blueprints come from modules that are not
  part of the sources; each is known by the name \<^verbatim>\<open>create_app\<close> imports it under.
\<close>

record flask_app =
  config :: "Config option"
  extensions :: "string list"
  blueprints :: "(string \<times> string) list"
  tables_created :: bool

definition Flask :: flask_app where
  "Flask = \<lparr>config = None, extensions = [], blueprints = [], tables_created = False\<rparr>"

definition from_object :: "Config \<Rightarrow> flask_app \<Rightarrow> flask_app" where
  "from_object c app = app\<lparr>config := Some c\<rparr>"

definition init_app :: "string \<Rightarrow> flask_app \<Rightarrow> flask_app" where
  "init_app ext app = app\<lparr>extensions := extensions app @ [ext]\<rparr>"

definition register_blueprint :: "string \<Rightarrow> string \<Rightarrow> flask_app \<Rightarrow> flask_app" where
  "register_blueprint bp url_prefix app = app\<lparr>blueprints := blueprints app @ [(bp, url_prefix)]\<rparr>"

definition create_all :: "flask_app \<Rightarrow> flask_app" where
  "create_all app = app\<lparr>tables_created := True\<rparr>"

text \<open>
  \<^verbatim>\<open>create_app()\<close> reads the class that \<^verbatim>\<open>from .config import Config\<close> bound when the
  package was imported; the class is the argument here.
\<close>

definition create_app :: "Config \<Rightarrow> flask_app" where
  "create_app cfg =
     (let app = Flask;
          app = from_object cfg app;
          app = init_app ''db'' app;
          app = init_app ''login_manager'' app;
          app = init_app ''csrf'' app;
          app = init_app ''talisman'' app;
          app = init_app ''limiter'' app;
          app = register_blueprint ''auth_bp'' ''/auth'' app;
          app = register_blueprint ''auth_api'' ''/api/auth'' app;
          app = register_blueprint ''clients_api'' ''/api/clients'' app;
          app = register_blueprint ''networks_api'' ''/api/networks'' app;
          app = register_blueprint ''projects_api'' ''/api/projects'' app;
          app = register_blueprint ''users_api'' ''/api/users'' app;
          app = create_all app
      in app)"

subsection \<open>Processes used as examples\<close>

text \<open>
  A process started with an empty environment and without a \<^verbatim>\<open>.env\<close> file, whose random
  source yields the bytes 3, 10, 17, ...; the same process with the specification's scenario
  \<^verbatim>\<open>SECRET_KEY=abc123\<close>; one with all four variables set, to values with blanks and mixed
  case; one whose \<^verbatim>\<open>.env\<close> file defines a variable; and a second start of the first
  process on another port, for which the random source yields the same bytes.
\<close>

definition bare_process :: process where
  "bare_process =
     \<lparr>environ = Map.empty, dotenv = Map.empty, entropy = (\<lambda>i. of_nat (7 * i + 3)),
      drawn = 0, logged = [], loaded = None\<rparr>"


definition provisioned_process :: process where
  "provisioned_process =
     bare_process\<lparr>environ :=
       [''SECRET_KEY'' \<mapsto> '' Abc 123 '',
        ''DATABASE_URL'' \<mapsto> ''PostgreSQL://Inventory@DB/main '',
        ''FERNET_KEY'' \<mapsto> '' not base64 at all'',
        ''REDIS_URL'' \<mapsto> ''Redis://Cache:6379/1'']\<rparr>"




section \<open>Properties\<close>

subsection \<open>Auxiliary facts: the library calls\<close>

lemma load_dotenv_fields:
  "dotenv (load_dotenv p) = dotenv p"
  "entropy (load_dotenv p) = entropy p"
  "drawn (load_dotenv p) = drawn p"
  "logged (load_dotenv p) = logged p"
  "loaded (load_dotenv p) = loaded p"
  by (simp_all add: load_dotenv_def)

lemma load_dotenv_keeps: "environ p k = Some v \<Longrightarrow> environ (load_dotenv p) k = Some v"
  by (simp add: load_dotenv_def)

lemma load_dotenv_None:
  "environ (load_dotenv p) k = None \<longleftrightarrow>
     environ p k = None \<and> (dotenv p k = None \<or> dotenv p k = Some None)"
  by (simp add: load_dotenv_def split: option.splits)



lemma Config_class_state: "snd (Config_class p) = p\<lparr>drawn := drawn p + 56\<rparr>"
  by (simp add: Config_class_def Fernet_generate_key_def os_urandom_def Let_def split_def)

lemma Config_class_SECRET_KEY:
  "SECRET_KEY (fst (Config_class p)) =
     (case environ p ''SECRET_KEY'' of
        Some v \<Rightarrow> v
      | None \<Rightarrow> bytes_hex (map (entropy p) [drawn p ..< drawn p + 24]))"
  by (simp add: Config_class_def Fernet_generate_key_def os_urandom_def os_getenv_def
      Let_def split_def split: option.split)

lemma Config_class_FERNET_KEY:
  "FERNET_KEY (fst (Config_class p)) =
     (case environ p ''FERNET_KEY'' of
        Some v \<Rightarrow> v
      | None \<Rightarrow> urlsafe_b64encode (map (entropy p) [drawn p + 24 ..< drawn p + 56]))"
  by (simp add: Config_class_def Fernet_generate_key_def os_urandom_def os_getenv_def
      Let_def split_def add.assoc split: option.split)

lemma Config_class_DATABASE_URI:
  "SQLALCHEMY_DATABASE_URI (fst (Config_class p)) =
     (case environ p ''DATABASE_URL'' of Some v \<Rightarrow> v | None \<Rightarrow> ''sqlite:///inventory.db'')"
  by (simp add: Config_class_def Fernet_generate_key_def os_urandom_def os_getenv_def
      Let_def split_def split: option.split)

lemma Config_class_STORAGE_URL:
  "RATE_LIMIT_STORAGE_URL (fst (Config_class p)) =
     (case environ p ''REDIS_URL'' of Some v \<Rightarrow> v | None \<Rightarrow> ''redis://redis:6379/0'')"
  by (simp add: Config_class_def Fernet_generate_key_def os_urandom_def os_getenv_def
      Let_def split_def split: option.split)

lemma Config_class_constants:
  "TALISMAN_CSP (fst (Config_class p)) =
     [(''default-src'', Source self_source),
      (''style-src'', Sources [self_source, ''https://cdn.jsdelivr.net'']),
      (''script-src'', Sources [self_source, ''https://cdn.jsdelivr.net''])]"
  "SESSION_COOKIE_HTTPONLY (fst (Config_class p)) = True"
  "SESSION_COOKIE_SAMESITE (fst (Config_class p)) = ''Lax''"
  by (simp_all add: Config_class_def Let_def split_def)

subsection \<open>Auxiliary facts: hexadecimal digits\<close>

lemma unat_byte_less: "unat (x :: byte) < 256"
  using unsigned_less [of x] by simp




subsection \<open>Auxiliary facts: URL-safe base64\<close>

lemma index_of_nth: "distinct xs \<Longrightarrow> n < length xs \<Longrightarrow> index_of (xs ! n) xs = Some n"
proof (induction xs arbitrary: n)
  case Nil
  then show ?case by simp
next
  case (Cons y ys)
  show ?case
  proof (cases n)
    case 0
    then show ?thesis by simp
  next
    case (Suc m)
    with Cons.prems have m: "m < length ys" and d: "distinct ys" and ny: "y \<notin> set ys"
      by simp_all
    from m ny have "ys ! m \<noteq> y" by (metis nth_mem)
    with Cons.IH [OF d m] Suc show ?thesis by simp
  qed
qed

lemma b64_alphabet_distinct: "distinct b64_alphabet"
  unfolding b64_alphabet_def by simp

lemma b64_alphabet_length: "length b64_alphabet = 64"
  unfolding b64_alphabet_def by simp

lemma b64_index_char: "n < 64 \<Longrightarrow> b64_index (b64_char n) = Some n"
  unfolding b64_index_def b64_char_def
  by (rule index_of_nth [OF b64_alphabet_distinct]) (simp add: b64_alphabet_length)

lemma b64_char_not_pad: "n < 64 \<Longrightarrow> b64_char n \<noteq> CHR ''=''"
proof -
  assume "n < 64"
  then have "b64_char n \<in> set b64_alphabet"
    unfolding b64_char_def by (simp add: b64_alphabet_length)
  moreover have "CHR ''='' \<notin> set b64_alphabet"
    unfolding b64_alphabet_def by simp
  ultimately show ?thesis by metis
qed

text \<open>The four six-bit values of a group are below 64, and they hold the three bytes.\<close>

lemma sextet_bounds:
  fixes a b c :: nat
  assumes "a < 256" "b < 256" "c < 256"
  shows "a div 4 < 64" "a mod 4 * 16 < 64" "a mod 4 * 16 + b div 16 < 64"
    "b mod 16 * 4 < 64" "b mod 16 * 4 + c div 64 < 64" "c mod 64 < 64"
proof -
  have a4: "a mod 4 < 4" and b16: "b mod 16 < 16" by simp_all
  have bd: "b div 16 < 16" and cd: "c div 64 < 4" using assms by simp_all
  show "a div 4 < 64" using assms by simp
  show "a mod 4 * 16 < 64" using a4 by linarith
  show "a mod 4 * 16 + b div 16 < 64" using a4 bd by linarith
  show "b mod 16 * 4 < 64" using b16 by linarith
  show "b mod 16 * 4 + c div 64 < 64" using b16 cd by linarith
  show "c mod 64 < 64" by simp
qed

lemma sextet_join:
  fixes a b c :: nat
  assumes "b < 256" "c < 256"
  shows "a div 4 * 4 + (a mod 4 * 16) div 16 = a"
    "a div 4 * 4 + (a mod 4 * 16 + b div 16) div 16 = a"
    "(a mod 4 * 16 + b div 16) mod 16 * 16 + (b mod 16 * 4) div 4 = b"
    "(a mod 4 * 16 + b div 16) mod 16 * 16 + (b mod 16 * 4 + c div 64) div 4 = b"
    "(b mod 16 * 4 + c div 64) mod 4 * 64 + c mod 64 = c"
proof -
  have bd: "b div 16 < 16" and cd: "c div 64 < 4" using assms by simp_all
  show "a div 4 * 4 + (a mod 4 * 16) div 16 = a" by simp
  show "a div 4 * 4 + (a mod 4 * 16 + b div 16) div 16 = a" using bd by simp
  show "(a mod 4 * 16 + b div 16) mod 16 * 16 + (b mod 16 * 4) div 4 = b" using bd by simp
  show "(a mod 4 * 16 + b div 16) mod 16 * 16 + (b mod 16 * 4 + c div 64) div 4 = b"
    using bd cd by simp
  show "(b mod 16 * 4 + c div 64) mod 4 * 64 + c mod 64 = c" using cd by simp
qed

lemma decode_one: "urlsafe_b64decode (urlsafe_b64encode [a]) = Some [a]"
  using sextet_bounds [OF unat_byte_less [of a] unat_byte_less [of a] unat_byte_less [of a]]
    sextet_join(1) [of "unat a"]
  by (simp add: b64_index_char)

lemma decode_two: "urlsafe_b64decode (urlsafe_b64encode [a, b]) = Some [a, b]"
  using sextet_bounds [OF unat_byte_less [of a] unat_byte_less [of b] unat_byte_less [of b]]
    sextet_join(2,3) [OF unat_byte_less [of b] unat_byte_less [of b], of "unat a"]
  by (simp add: b64_index_char b64_char_not_pad)

lemma decode_three:
  assumes "urlsafe_b64decode (urlsafe_b64encode bs) = Some bs"
  shows "urlsafe_b64decode (urlsafe_b64encode (a # b # c # bs)) = Some (a # b # c # bs)"
  using sextet_bounds [OF unat_byte_less [of a] unat_byte_less [of b] unat_byte_less [of c]]
    sextet_join(2,4) [OF unat_byte_less [of b] unat_byte_less [of c], of "unat a"]
    sextet_join(5) [OF unat_byte_less [of b] unat_byte_less [of c]]
    assms
  by (simp add: b64_index_char b64_char_not_pad)

text \<open>Decoding undoes encoding, for a byte string of any length.\<close>

lemma urlsafe_b64_roundtrip: "urlsafe_b64decode (urlsafe_b64encode bs) = Some bs"
proof (induction bs rule: urlsafe_b64encode.induct)
  case 1
  show ?case by simp
next
  case (2 a)
  show ?case by (rule decode_one)
next
  case (3 a b)
  show ?case by (rule decode_two)
next
  case (4 a b c bs)
  then show ?case by (rule decode_three)
qed

subsection \<open>Values supplied by the environment\<close>

text \<open>
  C1. For each of the four supported variables \<^verbatim>\<open>SECRET_KEY\<close>, \<^verbatim>\<open>DATABASE_URL\<close>,
  \<^verbatim>\<open>FERNET_KEY\<close> and \<^verbatim>\<open>REDIS_URL\<close>: when the variable is set in the environment the
  process starts with, the corresponding attribute of the configuration class is that very
  string, character for character, whatever the \<^verbatim>\<open>.env\<close> file and the random source hold.
\<close>

theorem environment_values_verbatim:
  "(environ p ''SECRET_KEY'' = Some v1 \<longrightarrow> SECRET_KEY (fst (config_module p)) = v1) \<and>
   (environ p ''DATABASE_URL'' = Some v2 \<longrightarrow>
      SQLALCHEMY_DATABASE_URI (fst (config_module p)) = v2) \<and>
   (environ p ''FERNET_KEY'' = Some v3 \<longrightarrow> FERNET_KEY (fst (config_module p)) = v3) \<and>
   (environ p ''REDIS_URL'' = Some v4 \<longrightarrow> RATE_LIMIT_STORAGE_URL (fst (config_module p)) = v4)"
proof (intro conjI impI)
  assume "environ p ''SECRET_KEY'' = Some v1"
  then show "SECRET_KEY (fst (config_module p)) = v1"
    by (simp add: config_module_def Config_class_SECRET_KEY load_dotenv_keeps)
next
  assume "environ p ''DATABASE_URL'' = Some v2"
  then show "SQLALCHEMY_DATABASE_URI (fst (config_module p)) = v2"
    by (simp add: config_module_def Config_class_DATABASE_URI load_dotenv_keeps)
next
  assume "environ p ''FERNET_KEY'' = Some v3"
  then show "FERNET_KEY (fst (config_module p)) = v3"
    by (simp add: config_module_def Config_class_FERNET_KEY load_dotenv_keeps)
next
  assume "environ p ''REDIS_URL'' = Some v4"
  then show "RATE_LIMIT_STORAGE_URL (fst (config_module p)) = v4"
    by (simp add: config_module_def Config_class_STORAGE_URL load_dotenv_keeps)
qed

theorem environment_values_verbatim_witness:
  "environ provisioned_process ''SECRET_KEY'' = Some '' Abc 123 '' \<and>
   SECRET_KEY (fst (config_module provisioned_process)) = '' Abc 123 '' \<and>
   environ provisioned_process ''DATABASE_URL'' = Some ''PostgreSQL://Inventory@DB/main '' \<and>
   SQLALCHEMY_DATABASE_URI (fst (config_module provisioned_process)) =
     ''PostgreSQL://Inventory@DB/main '' \<and>
   environ provisioned_process ''FERNET_KEY'' = Some '' not base64 at all'' \<and>
   FERNET_KEY (fst (config_module provisioned_process)) = '' not base64 at all'' \<and>
   environ provisioned_process ''REDIS_URL'' = Some ''Redis://Cache:6379/1'' \<and>
   RATE_LIMIT_STORAGE_URL (fst (config_module provisioned_process)) = ''Redis://Cache:6379/1''"
proof -
  have set: "environ provisioned_process ''SECRET_KEY'' = Some '' Abc 123 ''"
    "environ provisioned_process ''DATABASE_URL'' = Some ''PostgreSQL://Inventory@DB/main ''"
    "environ provisioned_process ''FERNET_KEY'' = Some '' not base64 at all''"
    "environ provisioned_process ''REDIS_URL'' = Some ''Redis://Cache:6379/1''"
    by (simp_all add: provisioned_process_def)
  with environment_values_verbatim [of provisioned_process "'' Abc 123 ''"
      "''PostgreSQL://Inventory@DB/main ''" "'' not base64 at all''" "''Redis://Cache:6379/1''"]
  show ?thesis by simp
qed

subsection \<open>Missing secrets\<close>




subsection \<open>Effects of loading the configuration\<close>



subsection \<open>Defaults and constants\<close>



text \<open>
  C5. For every process, the content security policy of the configuration has the directive
  \<^verbatim>\<open>default-src\<close>, and its value is the single source \<^verbatim>\<open>'self'\<close>.
\<close>

theorem csp_default_src_self:
  "map_of (TALISMAN_CSP (fst (config_module p))) ''default-src'' =
     Some (Source (CHR 0x27 # ''self'' @ [CHR 0x27]))"
  by (simp add: config_module_def Config_class_constants self_source_def)

text \<open>
  C9. For every process, the session cookie is HTTP-only and its same-site policy is
  \<^verbatim>\<open>Lax\<close>.
\<close>

theorem cookie_policy_constant:
  "SESSION_COOKIE_HTTPONLY (fst (config_module p)) \<and>
   SESSION_COOKIE_SAMESITE (fst (config_module p)) = ''Lax''"
  by (simp add: config_module_def Config_class_constants)

subsection \<open>Generated keys\<close>

text \<open>
  C6. When \<^verbatim>\<open>FERNET_KEY\<close> is absent from the environment the class reads, the
  encryption key decodes, as URL-safe base64, to exactly 32 bytes: the 32 bytes drawn from
  the random source after the 24 of the secret key.
\<close>

theorem generated_fernet_key_decodes_to_32_bytes:
  "environ (load_dotenv p) ''FERNET_KEY'' = None \<Longrightarrow>
   \<exists>raw. urlsafe_b64decode (FERNET_KEY (fst (config_module p))) = Some raw \<and>
     length raw = 32 \<and> raw = map (entropy p) [drawn p + 24 ..< drawn p + 56]"
  by (simp add: config_module_def Config_class_FERNET_KEY load_dotenv_fields
      urlsafe_b64_roundtrip)

theorem generated_fernet_key_decodes_to_32_bytes_witness:
  "environ (load_dotenv bare_process) ''FERNET_KEY'' = None \<and>
   FERNET_KEY (fst (config_module bare_process)) =
     ''q7K5wMfO1dzj6vH4_wYNFBsiKTA3PkVMU1phaG92fYQ='' \<and>
   (\<exists>raw. urlsafe_b64decode ''q7K5wMfO1dzj6vH4_wYNFBsiKTA3PkVMU1phaG92fYQ='' = Some raw \<and>
      length raw = 32)"
proof -
  have absent: "environ (load_dotenv bare_process) ''FERNET_KEY'' = None"
    by (simp add: load_dotenv_def bare_process_def)
  have key: "FERNET_KEY (fst (config_module bare_process)) =
      ''q7K5wMfO1dzj6vH4_wYNFBsiKTA3PkVMU1phaG92fYQ=''"
    by code_simp
  from generated_fernet_key_decodes_to_32_bytes [OF absent]
  obtain raw where "urlsafe_b64decode (FERNET_KEY (fst (config_module bare_process))) = Some raw"
    and "length raw = 32"
    by blast
  with absent key show ?thesis by simp
qed




subsection \<open>The module runs once\<close>

lemma import_config_first:
  "loaded p = None \<Longrightarrow>
   import_config p = (fst (config_module p), (snd (config_module p))\<lparr>loaded := Some (fst (config_module p))\<rparr>)"
  by (simp add: import_config_def Let_def split_def)

lemma import_config_again: "loaded p = Some c \<Longrightarrow> import_config p = (c, p)"
  by (simp add: import_config_def)

lemma import_times_loaded: "loaded p = Some c \<Longrightarrow> import_times n p = (replicate n c, p)"
  by (induction n) (simp_all add: import_config_again)

text \<open>
  C10. In a process that has not yet imported the module, any number of imports (at least
  one) all see the class the first import created, with the same secret key and encryption
  key. The module runs at the first import only: the process is then in the state one run of
  the module leaves, with the class stored, and the random source has been read as often as
  one run reads it, however many imports follow. The application built by
  \<^verbatim>\<open>create_app\<close> holds the same configuration.
\<close>

theorem configuration_computed_once:
  "loaded p = None \<Longrightarrow>
   fst (import_times (Suc n) p) = replicate (Suc n) (fst (config_module p)) \<and>
   snd (import_times (Suc n) p) =
     (snd (config_module p))\<lparr>loaded := Some (fst (config_module p))\<rparr> \<and>
   drawn (snd (import_times (Suc n) p)) = drawn (snd (config_module p)) \<and>
   import_config (snd (import_times (Suc n) p)) =
     (fst (config_module p), snd (import_times (Suc n) p)) \<and>
   config (create_app (fst (config_module p))) = Some (fst (config_module p))"
proof -
  assume fresh: "loaded p = None"
  define c where "c = fst (config_module p)"
  define p1 where "p1 = (snd (config_module p))\<lparr>loaded := Some c\<rparr>"
  have first: "import_config p = (c, p1)"
    using fresh by (simp add: import_config_first c_def p1_def)
  have l1: "loaded p1 = Some c"
    by (simp add: p1_def)
  have rest: "import_times n p1 = (replicate n c, p1)"
    using l1 by (rule import_times_loaded)
  have all: "import_times (Suc n) p = (replicate (Suc n) c, p1)"
    by (simp add: first rest)
  have d1: "drawn p1 = drawn (snd (config_module p))"
    by (simp add: p1_def)
  have again: "import_config p1 = (c, p1)"
    using l1 by (rule import_config_again)
  have app: "config (create_app c) = Some c"
    by (simp add: create_app_def Flask_def from_object_def init_app_def
        register_blueprint_def create_all_def)
  from all d1 again app show ?thesis
    by (simp add: c_def p1_def)
qed

theorem configuration_computed_once_witness:
  "loaded bare_process = None \<and>
   fst (import_times 3 bare_process) = replicate 3 (fst (config_module bare_process)) \<and>
   drawn (snd (config_module bare_process)) = 56 \<and>
   drawn (snd (import_times 3 bare_process)) = 56"
proof -
  have fresh: "loaded bare_process = None"
    by (simp add: bare_process_def)
  have once: "drawn (snd (config_module bare_process)) = 56"
    by (simp add: config_module_def Config_class_state load_dotenv_fields bare_process_def)
  from configuration_computed_once [OF fresh, of 2] fresh once show ?thesis
    by (simp add: numeral_3_eq_3)
qed

subsection \<open>Blueprints\<close>



end
